theory Spec2Isabelle
  imports Main
begin

section \<open>The session store of the catchUp front end\<close>

text \<open>
  The development embeds \<^verbatim>\<open>src/Provider/authProvider.tsx\<close>: the React provider that
  holds the access and refresh tokens, the signed-in user, the avatar and the cached role,
  and mirrors them into cookies and into \<^verbatim>\<open>localStorage\<close>.

  Conventions of the embedding.
  \<^item> The provider's \<^verbatim>\<open>useState\<close> cells, the cookie jar, \<^verbatim>\<open>localStorage\<close> and the traces
    of the collaborators (HTTP requests issued, files requested, console errors, redux
    actions dispatched) are the fields of one record, \<open>session\<close>; every operation takes
    the record and returns the updated one.
  \<^item> A JavaScript value of type \<^verbatim>\<open>string | null\<close> is a \<open>string option\<close>; the conditions
    \<^verbatim>\<open>if (x)\<close> of the source are JavaScript truthiness, written out: the empty string,
    \<^verbatim>\<open>null\<close> and the number 0 are falsy.
  \<^item> A thrown \<^verbatim>\<open>Error\<close> is a value \<open>Error msg\<close>; an operation that may throw returns a sum
    with \<open>Inl\<close> for the error.
  \<^item> What the network and the file reader answer is not decided by this code, so it is an
    argument of the operation that awaits it. \<open>getRole\<close> is awaited by its caller and is
    one step; \<open>fetchAndStoreAvatar\<close> is started by \<open>setUser\<close> without being awaited, so
    it is two steps: the part that runs inside \<open>setUser\<close> up to the first \<^verbatim>\<open>await\<close>, and
    \<open>fetchAndStoreAvatar_resume\<close>, which runs when the download has settled, on whatever
    the session is by then.
  \<^item> The setters and \<open>logout\<close> read no state of the provider and only write the cells.
    \<open>getRole\<close> reads one: the \<^verbatim>\<open>roleCache\<close> constant of the render that created the
    closure. That captured value is the first argument of \<open>getRole\<close>; the cell \<open>roleCache\<close>
    of the session is what \<^verbatim>\<open>setRoleCache\<close> writes. The context value is memoised with
    \<^verbatim>\<open>roleCache\<close> among its dependencies, so the \<open>getRole\<close> a consumer takes from the
    context once the provider has rendered on a session \<open>s\<close> is \<open>getRole (roleCache s)\<close>,
    while a \<open>getRole\<close> kept from an earlier render keeps the value it captured then.
  \<^item> The cookie jar is keyed by the cookie name: the source writes every cookie with path
    \<^verbatim>\<open>/\<close>, which is also the path \<^verbatim>\<open>Cookies.remove\<close> addresses by default, and the browser is
    taken to accept a cookie marked secure.
\<close>

subsection \<open>Values\<close>

datatype js_error = Error string

definition InvalidArgument :: js_error where
  "InvalidArgument = Error ''Invalid userId''"

definition RoleFetchFailed :: js_error where
  "RoleFetchFailed = Error ''Failed to fetch user role''"

text \<open>
  Modelled from the spec: \<^verbatim>\<open>UserDto\<close> is declared in \<^verbatim>\<open>src/dtos/UserDto.ts\<close>, which is not
  among the sources. The spec gives it "at minimum an identifier and an optional avatar
  reference id"; the provider reads only \<^verbatim>\<open>avatarId\<close>, of type \<^verbatim>\<open>number | null\<close>.
\<close>

record UserDto =
  ident :: string
  avatarId :: "int option"

datatype action = clearTasks

datatype 'a promise = Pending | Fulfilled 'a | Rejected js_error

record session =
  accessToken :: "string option"
  refreshToken :: "string option"
  user :: "UserDto option"
  avatar :: "string option"
  roleCache :: string
  cookies :: "string \<rightharpoonup> string"
  localStorage :: "string \<rightharpoonup> string"
  requests :: "string list"
  downloads :: "int list"
  console :: "(string \<times> js_error) list"
  dispatched :: "action list"

subsection \<open>Truthiness\<close>

definition truthy_string :: "string option \<Rightarrow> bool" where
  "truthy_string v = (case v of None \<Rightarrow> False | Some x \<Rightarrow> x \<noteq> [])"

definition truthy_number :: "int option \<Rightarrow> bool" where
  "truthy_number v = (case v of None \<Rightarrow> False | Some n \<Rightarrow> n \<noteq> 0)"

subsection \<open>Cookies and localStorage\<close>

definition Cookies_get :: "string \<Rightarrow> session \<Rightarrow> string option" where
  "Cookies_get name s = cookies s name"

definition Cookies_set :: "string \<Rightarrow> string \<Rightarrow> session \<Rightarrow> session" where
  "Cookies_set name v s = s\<lparr>cookies := (cookies s)(name \<mapsto> v)\<rparr>"

definition Cookies_remove :: "string \<Rightarrow> session \<Rightarrow> session" where
  "Cookies_remove name s = s\<lparr>cookies := (cookies s)(name := None)\<rparr>"

text \<open>
  \<^verbatim>\<open>localStorage.setItem\<close> converts its value to a string; \<^verbatim>\<open>null\<close> becomes the four
  characters \<^verbatim>\<open>null\<close>.
\<close>

definition toDOMString :: "string option \<Rightarrow> string" where
  "toDOMString v = (case v of None \<Rightarrow> ''null'' | Some x \<Rightarrow> x)"

definition localStorage_getItem :: "string \<Rightarrow> session \<Rightarrow> string option" where
  "localStorage_getItem key s = localStorage s key"

definition localStorage_setItem :: "string \<Rightarrow> string option \<Rightarrow> session \<Rightarrow> session" where
  "localStorage_setItem key v s = s\<lparr>localStorage := (localStorage s)(key \<mapsto> toDOMString v)\<rparr>"

definition localStorage_removeItem :: "string \<Rightarrow> session \<Rightarrow> session" where
  "localStorage_removeItem key s = s\<lparr>localStorage := (localStorage s)(key := None)\<rparr>"

subsection \<open>The file reader and storeAvatar\<close>

text \<open>
  \<^verbatim>\<open>FileReader.readAsDataURL\<close> ends in one of two ways. A read that succeeds sets
  \<^verbatim>\<open>reader.result\<close> to the data URL and fires \<^verbatim>\<open>load\<close>, then \<^verbatim>\<open>loadend\<close>. A read that fails
  leaves \<^verbatim>\<open>reader.result\<close> at \<^verbatim>\<open>null\<close> and fires \<^verbatim>\<open>error\<close>, then \<^verbatim>\<open>loadend\<close>: \<^verbatim>\<open>loadend\<close>
  is fired when the read has completed, in success or in failure. Which of the two happens
  for a blob is the argument \<open>reader\<close>.
\<close>

datatype read_outcome = ReadLoaded string | ReadFailed js_error

datatype reader_event = Load | ErrorEvent js_error | LoadEnd

fun reader_result :: "read_outcome \<Rightarrow> string option" where
  "reader_result (ReadLoaded url) = Some url"
| "reader_result (ReadFailed e) = None"

fun reader_events :: "read_outcome \<Rightarrow> reader_event list" where
  "reader_events (ReadLoaded url) = [Load, LoadEnd]"
| "reader_events (ReadFailed e) = [ErrorEvent e, LoadEnd]"

text \<open>A promise settles once: \<^verbatim>\<open>resolve\<close> and \<^verbatim>\<open>reject\<close> on a settled promise do nothing.\<close>

fun resolve :: "'a \<Rightarrow> 'a promise \<Rightarrow> 'a promise" where
  "resolve v Pending = Fulfilled v"
| "resolve v p = p"

fun reject :: "js_error \<Rightarrow> 'a promise \<Rightarrow> 'a promise" where
  "reject e Pending = Rejected e"
| "reject e p = p"

text \<open>
  The handlers \<open>storeAvatar\<close> installs: \<^verbatim>\<open>onloadend\<close> stores \<^verbatim>\<open>reader.result\<close> under
  \<^verbatim>\<open>userAvatar\<close> and resolves with it, \<^verbatim>\<open>onerror\<close> is \<^verbatim>\<open>reject\<close>, and \<^verbatim>\<open>load\<close> has no handler.
\<close>

fun storeAvatar_handler ::
  "string option \<Rightarrow> reader_event \<Rightarrow> string option promise \<times> session
    \<Rightarrow> string option promise \<times> session" where
  "storeAvatar_handler result LoadEnd (p, s) =
     (resolve result p, localStorage_setItem ''userAvatar'' result s)"
| "storeAvatar_handler result (ErrorEvent e) (p, s) = (reject e p, s)"
| "storeAvatar_handler result Load (p, s) = (p, s)"

definition storeAvatar ::
  "('b \<Rightarrow> read_outcome) \<Rightarrow> 'b \<Rightarrow> session \<Rightarrow> string option promise \<times> session" where
  "storeAvatar reader avatarBlob s =
     fold (storeAvatar_handler (reader_result (reader avatarBlob)))
       (reader_events (reader avatarBlob)) (Pending, s)"

definition loadStoredAvatar :: "session \<Rightarrow> string option" where
  "loadStoredAvatar s = localStorage_getItem ''userAvatar'' s"

subsection \<open>The provider\<close>

text \<open>
  The state of the first render, read from the cookie jar and from \<^verbatim>\<open>localStorage\<close>.
  \<^verbatim>\<open>JSON.parse\<close> on the stored user is the argument \<open>parse\<close>.
\<close>

definition AuthProvider ::
  "(string \<Rightarrow> UserDto option) \<Rightarrow> (string \<rightharpoonup> string) \<Rightarrow> (string \<rightharpoonup> string) \<Rightarrow> session" where
  "AuthProvider parse jar store =
     \<lparr>accessToken = (if truthy_string (jar ''accessToken'') then jar ''accessToken'' else None),
      refreshToken = (if truthy_string (jar ''refreshToken'') then jar ''refreshToken'' else None),
      user = (case jar ''user'' of
                None \<Rightarrow> None
              | Some storedUser \<Rightarrow> if storedUser \<noteq> [] then parse storedUser else None),
      avatar = store ''userAvatar'',
      roleCache = [],
      cookies = jar,
      localStorage = store,
      requests = [],
      downloads = [],
      console = [],
      dispatched = []\<rparr>"

definition setAccessToken :: "string option \<Rightarrow> session \<Rightarrow> session" where
  "setAccessToken newToken s =
     (let s1 = s\<lparr>accessToken := newToken\<rparr> in
      case newToken of
        Some t \<Rightarrow> if t \<noteq> [] then Cookies_set ''accessToken'' t s1
                  else Cookies_remove ''accessToken'' s1
      | None \<Rightarrow> Cookies_remove ''accessToken'' s1)"

definition setRefreshToken :: "string option \<Rightarrow> session \<Rightarrow> session" where
  "setRefreshToken newRefreshToken s =
     (let s1 = s\<lparr>refreshToken := newRefreshToken\<rparr> in
      case newRefreshToken of
        Some t \<Rightarrow> if t \<noteq> [] then Cookies_set ''refreshToken'' t s1
                  else Cookies_remove ''refreshToken'' s1
      | None \<Rightarrow> Cookies_remove ''refreshToken'' s1)"

text \<open>
  \<open>fetchAndStoreAvatar\<close> up to its first \<^verbatim>\<open>await\<close>: a falsy id clears the avatar and
  returns; otherwise \<^verbatim>\<open>fileService.downloadFile(avatarId)\<close> is called, which the field
  \<open>downloads\<close> records, and the function is suspended.
\<close>

definition fetchAndStoreAvatar :: "int option \<Rightarrow> session \<Rightarrow> session" where
  "fetchAndStoreAvatar avatarId' s =
     (case avatarId' of
        None \<Rightarrow> (localStorage_removeItem ''userAvatar'' s)\<lparr>avatar := None\<rparr>
      | Some n \<Rightarrow>
          if n = 0 then (localStorage_removeItem ''userAvatar'' s)\<lparr>avatar := None\<rparr>
          else s\<lparr>downloads := downloads s @ [n]\<rparr>)"

text \<open>
  The rest of \<open>fetchAndStoreAvatar\<close>, run when the download has settled with \<open>dl\<close>. The
  result is how the promise of \<open>fetchAndStoreAvatar\<close> itself settles.
\<close>

definition fetchAndStoreAvatar_resume ::
  "(js_error + 'b) \<Rightarrow> ('b \<Rightarrow> read_outcome) \<Rightarrow> session \<Rightarrow> unit promise \<times> session" where
  "fetchAndStoreAvatar_resume dl reader s =
     (case dl of
        Inl e \<Rightarrow> (Fulfilled (), s\<lparr>console := console s @ [(''Error fetching avatar:'', e)]\<rparr>)
      | Inr blob \<Rightarrow>
          (case storeAvatar reader blob s of
             (Fulfilled avatarBase64, s1) \<Rightarrow> (Fulfilled (), s1\<lparr>avatar := avatarBase64\<rparr>)
           | (Rejected e, s1) \<Rightarrow>
               (Fulfilled (), s1\<lparr>console := console s1 @ [(''Error fetching avatar:'', e)]\<rparr>)
           | (Pending, s1) \<Rightarrow> (Pending, s1)))"

definition updateAvatar ::
  "('b \<Rightarrow> read_outcome) \<Rightarrow> 'b \<Rightarrow> session \<Rightarrow> unit promise \<times> session" where
  "updateAvatar reader avatarBlob s =
     (case storeAvatar reader avatarBlob s of
        (Fulfilled avatarBase64, s1) \<Rightarrow> (Fulfilled (), s1\<lparr>avatar := avatarBase64\<rparr>)
      | (Rejected e, s1) \<Rightarrow> (Rejected e, s1)
      | (Pending, s1) \<Rightarrow> (Pending, s1))"

text \<open>
  \<^verbatim>\<open>JSON.stringify\<close> on the user is the argument \<open>stringify\<close>, the fields of the DTO being
  declared outside the sources.
\<close>

definition setUser :: "(UserDto \<Rightarrow> string) \<Rightarrow> UserDto option \<Rightarrow> session \<Rightarrow> session" where
  "setUser stringify newUser s =
     (case newUser of
        Some userToStore \<Rightarrow>
          (let s1 = Cookies_set ''user'' (stringify userToStore) s;
               s2 = s1\<lparr>user := Some userToStore\<rparr>
           in if truthy_number (avatarId userToStore)
              then fetchAndStoreAvatar (avatarId userToStore) s2
              else s2)
      | None \<Rightarrow>
          (let s1 = Cookies_remove ''user'' s;
               s2 = localStorage_removeItem ''userAvatar'' s1;
               s3 = s2\<lparr>avatar := None\<rparr>
           in s3\<lparr>user := None\<rparr>))"

definition dispatch :: "action \<Rightarrow> session \<Rightarrow> session" where
  "dispatch a s = s\<lparr>dispatched := dispatched s @ [a]\<rparr>"

definition logout :: "(UserDto \<Rightarrow> string) \<Rightarrow> session \<Rightarrow> session" where
  "logout stringify s =
     (let s1 = setAccessToken None s;
          s2 = setRefreshToken None s1;
          s3 = setUser stringify None s2;
          s4 = s3\<lparr>roleCache := []\<rparr>;
          s5 = localStorage_removeItem ''userAvatar'' s4;
          s6 = dispatch clearTasks s5
      in s6\<lparr>avatar := None\<rparr>)"

text \<open>
  \<open>getRole\<close>. Its first argument is the \<^verbatim>\<open>roleCache\<close> constant the closure captured when
  its render created it: the test \<^verbatim>\<open>if (roleCache)\<close> and the early return read that
  constant, never the cell, and \<^verbatim>\<open>setRoleCache(role)\<close> writes the cell. The argument
  \<open>response\<close> is the answer of \<^verbatim>\<open>axiosInstance.get\<close>: \<open>Inl\<close> when the request is rejected,
  \<open>Inr d\<close> when it succeeds with \<^verbatim>\<open>response.data\<close> equal to \<open>d\<close>. The answer is looked at
  only when the request is made; \<open>requests\<close> records the URL of every request.
\<close>

definition getRole ::
  "string \<Rightarrow> (js_error + string option) \<Rightarrow> string \<Rightarrow> session
    \<Rightarrow> (js_error + string) \<times> session" where
  "getRole capturedRoleCache response userId s =
     (if userId = [] then (Inl (Error ''Invalid userId''), s)
      else if capturedRoleCache \<noteq> [] then (Inr capturedRoleCache, s)
      else
        (let s1 = s\<lparr>requests := requests s @ [''User/GetRole/'' @ userId]\<rparr> in
         case response of
           Inr d \<Rightarrow>
             (let role = (case d of
                            None \<Rightarrow> ''User''
                          | Some x \<Rightarrow> if x \<noteq> [] then x else ''User'')
              in (Inr role, s1\<lparr>roleCache := role\<rparr>))
         | Inl e \<Rightarrow> (Inl (Error ''Failed to fetch user role''), s1)))"

subsection \<open>Sessions and collaborators used in the examples\<close>

definition stringify_ident :: "UserDto \<Rightarrow> string" where
  "stringify_ident u = ''user:'' @ ident u"

definition parse_none :: "string \<Rightarrow> UserDto option" where
  "parse_none x = None"

definition fresh_session :: session where
  "fresh_session = AuthProvider parse_none Map.empty Map.empty"

definition reader_fails :: "nat list \<Rightarrow> read_outcome" where
  "reader_fails b = ReadFailed (Error ''NotReadableError'')"

definition user_u1 :: UserDto where
  "user_u1 = \<lparr>ident = ''u1'', avatarId = Some 42\<rparr>"

definition user_zero :: UserDto where
  "user_zero = \<lparr>ident = ''u1'', avatarId = Some 0\<rparr>"

section \<open>Properties\<close>

lemmas storage_defs =
  Cookies_get_def Cookies_set_def Cookies_remove_def
  localStorage_getItem_def localStorage_setItem_def localStorage_removeItem_def

subsection \<open>logout\<close>

text \<open>
  Claim C1. From every session, \<open>logout\<close> leaves the access token, the refresh token, the
  user and the avatar absent and the cached role empty, in the provider's state; and the
  cookies \<^verbatim>\<open>accessToken\<close>, \<^verbatim>\<open>refreshToken\<close>, \<^verbatim>\<open>user\<close> and the \<^verbatim>\<open>localStorage\<close> key
  \<^verbatim>\<open>userAvatar\<close> are absent afterwards.
\<close>

theorem logout_clears_session:
  "accessToken (logout f s) = None \<and>
   refreshToken (logout f s) = None \<and>
   user (logout f s) = None \<and>
   avatar (logout f s) = None \<and>
   roleCache (logout f s) = [] \<and>
   Cookies_get ''accessToken'' (logout f s) = None \<and>
   Cookies_get ''refreshToken'' (logout f s) = None \<and>
   Cookies_get ''user'' (logout f s) = None \<and>
   localStorage_getItem ''userAvatar'' (logout f s) = None"
  by (simp add: logout_def setAccessToken_def setRefreshToken_def setUser_def dispatch_def
      storage_defs Let_def)

subsection \<open>setUser with an absent user\<close>

text \<open>
  Claim C2 says that \<open>setUser\<close> with an absent user also clears the cached role. The
  branch of \<open>setUser\<close> for an absent user never writes \<open>roleCache\<close>: after the role
  \<^verbatim>\<open>Admin\<close> has been resolved for \<^verbatim>\<open>u1\<close> on a fresh provider, by the \<open>getRole\<close> of its first
  render, \<open>setUser\<close> with an absent user leaves the cached role non-empty.
\<close>

theorem setUser_absent_keeps_role_counterexample:
  "roleCache (setUser stringify_ident None
     (snd (getRole (roleCache fresh_session) (Inr (Some ''Admin'')) ''u1'' fresh_session)))
   \<noteq> []"
  by (simp add: setUser_def getRole_def fresh_session_def AuthProvider_def storage_defs Let_def)

text \<open>
  Claim C2, amended. From every session, \<open>setUser\<close> with an absent user removes the cookie
  \<^verbatim>\<open>user\<close>, removes the \<^verbatim>\<open>localStorage\<close> key \<^verbatim>\<open>userAvatar\<close>, resets the user and the avatar
  of the provider's state to absent, and leaves the cached role as it was.
\<close>

theorem setUser_absent_clears_user_and_avatar:
  "Cookies_get ''user'' (setUser f None s) = None \<and>
   localStorage_getItem ''userAvatar'' (setUser f None s) = None \<and>
   user (setUser f None s) = None \<and>
   avatar (setUser f None s) = None \<and>
   roleCache (setUser f None s) = roleCache s"
  by (simp add: setUser_def storage_defs Let_def)

subsection \<open>getRole\<close>

text \<open>
  A request is issued exactly when the identifier is non-empty and the closure captured an
  empty cache.
\<close>

lemma getRole_request_iff:
  "requests (snd (getRole c r userId s)) \<noteq> requests s \<longleftrightarrow> userId \<noteq> [] \<and> c = []"
  by (auto simp: getRole_def Let_def split: sum.splits)

text \<open>Only a successful request writes the cell, and what it writes is never empty.\<close>

lemma getRole_success_role:
  "getRole c r userId s = (Inr role, s1) \<Longrightarrow> role \<noteq> []"
  by (auto simp: getRole_def Let_def split: if_splits sum.splits option.splits)

text \<open>
  Claim C3 says that two calls of \<open>getRole\<close> for the same identifier, starting from an empty
  cache and with a successful first request, make one request in total and return the same
  role. The test of the cache reads the constant the closure captured. On a fresh provider,
  the \<open>getRole\<close> of the first render captured the empty string; called for \<^verbatim>\<open>u1\<close> it caches
  \<^verbatim>\<open>Admin\<close>, and called a second time, the same closure still sees the empty string: it
  issues a second request, and when that one is rejected the second call fails where the
  first returned \<^verbatim>\<open>Admin\<close>.
\<close>

theorem getRole_held_closure_refetches_counterexample:
  "requests (snd (getRole (roleCache fresh_session) (Inl (Error ''Network Error'')) ''u1''
      (snd (getRole (roleCache fresh_session) (Inr (Some ''Admin'')) ''u1'' fresh_session))))
     = [''User/GetRole/u1'', ''User/GetRole/u1''] \<and>
   fst (getRole (roleCache fresh_session) (Inr (Some ''Admin'')) ''u1'' fresh_session)
     = Inr ''Admin'' \<and>
   fst (getRole (roleCache fresh_session) (Inl (Error ''Network Error'')) ''u1''
      (snd (getRole (roleCache fresh_session) (Inr (Some ''Admin'')) ''u1'' fresh_session)))
     = Inl RoleFetchFailed"
  by (simp add: getRole_def fresh_session_def AuthProvider_def RoleFetchFailed_def Let_def)

text \<open>
  Claim C3, amended. For a non-empty \<open>userId\<close> and a session \<open>s\<close> with an empty role cache,
  let the \<open>getRole\<close> of the render on \<open>s\<close> be called and its request succeed (with any data
  \<open>d\<close>), leaving the session \<open>s1\<close>; and let the second call be made through the \<open>getRole\<close> of
  the render on \<open>s1\<close>, the one the context hands out once the provider has re-rendered.
  Then the second call returns what the first returned, whatever the network would answer
  the second time (\<open>r2\<close>); that is the role now in the cell, which is the data of the first
  answer, or \<^verbatim>\<open>User\<close> when there is none; and after both calls the trace of requests is the
  one before the first call with exactly one request added, the one for \<open>userId\<close>.
\<close>

theorem getRole_twice_one_request:
  assumes "userId \<noteq> []" and "roleCache s = []"
  shows "let s1 = snd (getRole (roleCache s) (Inr d) userId s) in
         fst (getRole (roleCache s1) r2 userId s1)
           = fst (getRole (roleCache s) (Inr d) userId s) \<and>
         fst (getRole (roleCache s) (Inr d) userId s) = Inr (roleCache s1) \<and>
         roleCache s1 = (case d of None \<Rightarrow> ''User''
                         | Some x \<Rightarrow> if x \<noteq> [] then x else ''User'') \<and>
         requests (snd (getRole (roleCache s1) r2 userId s1))
           = requests s @ [''User/GetRole/'' @ userId]"
  using assms by (simp add: getRole_def Let_def split: option.splits)

theorem getRole_twice_one_request_witness:
  "''u1'' \<noteq> [] \<and> roleCache fresh_session = [] \<and>
   roleCache (snd (getRole [] (Inr (Some ''Admin'')) ''u1'' fresh_session)) = ''Admin'' \<and>
   fst (getRole ''Admin'' (Inl (Error ''Network Error'')) ''u1''
          (snd (getRole [] (Inr (Some ''Admin'')) ''u1'' fresh_session))) = Inr ''Admin'' \<and>
   fst (getRole [] (Inr (Some ''Admin'')) ''u1'' fresh_session) = Inr ''Admin'' \<and>
   requests (snd (getRole ''Admin'' (Inl (Error ''Network Error'')) ''u1''
          (snd (getRole [] (Inr (Some ''Admin'')) ''u1'' fresh_session))))
     = [''User/GetRole/u1'']"
  using getRole_twice_one_request
    [of "''u1''" fresh_session "Some ''Admin''" "Inl (Error ''Network Error'')"]
  by (simp add: fresh_session_def AuthProvider_def getRole_def Let_def)

text \<open>
  Claim C4. From every session, whatever the closure captured and whatever the network
  would answer, \<open>getRole\<close> on the empty identifier fails with \<open>InvalidArgument\<close> and returns
  the session it was given: no request is added to the trace and the cached role is
  untouched. (The parameter has type \<^verbatim>\<open>string\<close>, so the empty string is its only falsy
  value.)
\<close>

theorem getRole_empty_userId:
  "getRole c response [] s = (Inl InvalidArgument, s)"
  by (simp add: getRole_def InvalidArgument_def)

text \<open>
  Claim C5. For a non-empty \<open>userId\<close> and a closure that captured an empty cache (the case
  in which the request is made, by \<open>getRole_request_iff\<close>), when the request is rejected
  \<open>getRole\<close> fails with \<open>RoleFetchFailed\<close> and the session differs from the one before only
  by the request in the trace: the cell of the cached role holds what it held, so it is
  still the empty string when it was empty, as it is for the closure of the current render.
\<close>

theorem getRole_network_error:
  assumes "userId \<noteq> []" and "c = []"
  shows "fst (getRole c (Inl e) userId s) = Inl RoleFetchFailed \<and>
         roleCache (snd (getRole c (Inl e) userId s)) = roleCache s \<and>
         (roleCache s = [] \<longrightarrow> roleCache (snd (getRole c (Inl e) userId s)) = []) \<and>
         snd (getRole c (Inl e) userId s)
           = s\<lparr>requests := requests s @ [''User/GetRole/'' @ userId]\<rparr>"
  using assms by (simp add: getRole_def RoleFetchFailed_def Let_def)

theorem getRole_network_error_witness:
  "''u2'' \<noteq> [] \<and> roleCache fresh_session = [] \<and>
   fst (getRole (roleCache fresh_session) (Inl (Error ''Request failed with status code 500''))
          ''u2'' fresh_session) = Inl RoleFetchFailed \<and>
   roleCache (snd (getRole (roleCache fresh_session)
          (Inl (Error ''Request failed with status code 500'')) ''u2'' fresh_session)) = []"
  using getRole_network_error
    [of "''u2''" "roleCache fresh_session" "Error ''Request failed with status code 500''"
      fresh_session]
  by (simp add: fresh_session_def AuthProvider_def)

text \<open>
  Claim C6. For a non-empty \<open>userId\<close> and a closure that captured an empty cache, when the
  request succeeds with no data (\<^verbatim>\<open>null\<close>) or with the empty string, \<open>getRole\<close> returns
  \<^verbatim>\<open>User\<close> and the cached role becomes \<^verbatim>\<open>User\<close>.
\<close>

theorem getRole_empty_response_defaults_to_User:
  assumes "userId \<noteq> []" and "c = []" and "d = None \<or> d = Some []"
  shows "getRole c (Inr d) userId s =
     (Inr ''User'',
      s\<lparr>requests := requests s @ [''User/GetRole/'' @ userId], roleCache := ''User''\<rparr>)"
  using assms by (auto simp: getRole_def Let_def)

theorem getRole_empty_response_defaults_to_User_witness:
  "''u1'' \<noteq> [] \<and> roleCache fresh_session = [] \<and>
   fst (getRole (roleCache fresh_session) (Inr (Some [])) ''u1'' fresh_session) = Inr ''User'' \<and>
   roleCache (snd (getRole (roleCache fresh_session) (Inr (Some [])) ''u1'' fresh_session))
     = ''User'' \<and>
   fst (getRole (roleCache fresh_session) (Inr None) ''u1'' fresh_session) = Inr ''User'' \<and>
   roleCache (snd (getRole (roleCache fresh_session) (Inr None) ''u1'' fresh_session))
     = ''User''"
  using getRole_empty_response_defaults_to_User
      [of "''u1''" "roleCache fresh_session" "Some []" fresh_session]
    getRole_empty_response_defaults_to_User
      [of "''u1''" "roleCache fresh_session" None fresh_session]
  by (simp add: fresh_session_def AuthProvider_def)




subsection \<open>The tokens\<close>

text \<open>
  Claim C7 says that for every token value \<open>T\<close>, a read of the cookie after
  \<open>setAccessToken T\<close> returns \<open>T\<close>. The setter tests \<^verbatim>\<open>if (newToken)\<close>, and the empty string
  is falsy: with the empty string as token the cookie is removed, so the read does not
  return the empty string. Here the cookie held \<^verbatim>\<open>tok\<close> before.
\<close>

theorem setAccessToken_empty_string_counterexample:
  "Cookies_get ''accessToken''
     (setAccessToken (Some []) (setAccessToken (Some ''tok'') fresh_session)) \<noteq> Some []"
  by (simp add: setAccessToken_def fresh_session_def AuthProvider_def storage_defs)

text \<open>
  Claim C7, amended. For every non-empty token \<open>T\<close> and every session, a read of the cookie
  \<^verbatim>\<open>accessToken\<close> after \<open>setAccessToken\<close> with \<open>T\<close> returns \<open>T\<close>; after \<open>setAccessToken\<close> with an
  absent token, or with the empty string, it returns absent. The same holds for
  \<open>setRefreshToken\<close> and the cookie \<^verbatim>\<open>refreshToken\<close>, and each setter leaves the other
  cookie as it was, whatever it is given (\<open>t\<close>). A provider started on the cookie jar left
  by a setter given \<open>T\<close> starts with the token \<open>T\<close>.
\<close>

theorem token_setters_roundtrip:
  assumes "T \<noteq> []"
  shows "Cookies_get ''accessToken'' (setAccessToken (Some T) s) = Some T \<and>
         Cookies_get ''accessToken'' (setAccessToken None s) = None \<and>
         Cookies_get ''accessToken'' (setAccessToken (Some []) s) = None \<and>
         Cookies_get ''refreshToken'' (setRefreshToken (Some T) s) = Some T \<and>
         Cookies_get ''refreshToken'' (setRefreshToken None s) = None \<and>
         Cookies_get ''refreshToken'' (setRefreshToken (Some []) s) = None \<and>
         Cookies_get ''refreshToken'' (setAccessToken t s) = Cookies_get ''refreshToken'' s \<and>
         Cookies_get ''accessToken'' (setRefreshToken t s) = Cookies_get ''accessToken'' s \<and>
         accessToken (AuthProvider parse (cookies (setAccessToken (Some T) s)) store) = Some T \<and>
         refreshToken (AuthProvider parse (cookies (setRefreshToken (Some T) s)) store) = Some T"
  using assms
  by (simp add: setAccessToken_def setRefreshToken_def AuthProvider_def truthy_string_def
      storage_defs Let_def split: option.splits)

theorem token_setters_roundtrip_witness:
  "''tok'' \<noteq> [] \<and>
   Cookies_get ''accessToken'' (setAccessToken (Some ''tok'') fresh_session) = Some ''tok'' \<and>
   Cookies_get ''accessToken''
     (setAccessToken None (setAccessToken (Some ''tok'') fresh_session)) = None \<and>
   Cookies_get ''refreshToken'' (setRefreshToken (Some ''tok'') fresh_session) = Some ''tok'' \<and>
   Cookies_get ''accessToken''
     (setRefreshToken (Some ''other'') (setAccessToken (Some ''tok'') fresh_session)) = Some ''tok''"
  using token_setters_roundtrip [of "''tok''" fresh_session]
    token_setters_roundtrip [of "''tok''" "setAccessToken (Some ''tok'') fresh_session"
      "Some ''other''"]
  by simp

subsection \<open>The avatar\<close>

text \<open>The promise of \<open>storeAvatar\<close> always settles, and so does the one of the fetch.\<close>

lemma storeAvatar_loaded:
  "reader b = ReadLoaded url \<Longrightarrow>
   storeAvatar reader b s =
     (Fulfilled (Some url), localStorage_setItem ''userAvatar'' (Some url) s)"
  by (simp add: storeAvatar_def)

lemma storeAvatar_failed:
  "reader b = ReadFailed e \<Longrightarrow>
   storeAvatar reader b s = (Rejected e, localStorage_setItem ''userAvatar'' None s)"
  by (simp add: storeAvatar_def)

lemma storeAvatar_settles: "fst (storeAvatar reader b s) \<noteq> Pending"
  by (cases "reader b") (simp_all add: storeAvatar_def)

text \<open>
  The fetch never rejects: whatever the download and the reader do, the promise of
  \<open>fetchAndStoreAvatar\<close> is fulfilled, so nothing reaches the caller of \<open>setUser\<close>.
\<close>

lemma fetchAndStoreAvatar_resume_fulfils:
  "fst (fetchAndStoreAvatar_resume dl reader s) = Fulfilled ()"
proof (cases dl)
  case (Inl e)
  then show ?thesis by (simp add: fetchAndStoreAvatar_resume_def)
next
  case (Inr b)
  show ?thesis
  proof (cases "reader b")
    case (ReadLoaded url)
    with Inr show ?thesis
      by (simp add: fetchAndStoreAvatar_resume_def storeAvatar_loaded)
  next
    case (ReadFailed e)
    with Inr show ?thesis
      by (simp add: fetchAndStoreAvatar_resume_def storeAvatar_failed)
  qed
qed

text \<open>A failed download is logged and changes nothing else.\<close>

lemma fetchAndStoreAvatar_resume_download_failed:
  "fetchAndStoreAvatar_resume (Inl e) reader s =
     (Fulfilled (), s\<lparr>console := console s @ [(''Error fetching avatar:'', e)]\<rparr>)"
  by (simp add: fetchAndStoreAvatar_resume_def)

text \<open>
  A failed read is logged and leaves the avatar of the provider's state alone, but the
  \<^verbatim>\<open>loadend\<close> handler has run with \<^verbatim>\<open>reader.result\<close> at \<^verbatim>\<open>null\<close>: the key \<^verbatim>\<open>userAvatar\<close> now
  holds the text \<^verbatim>\<open>null\<close>.
\<close>

lemma fetchAndStoreAvatar_resume_read_failed:
  "reader b = ReadFailed e \<Longrightarrow>
   fetchAndStoreAvatar_resume (Inr b) reader s =
     (Fulfilled (),
      s\<lparr>localStorage := (localStorage s)(''userAvatar'' \<mapsto> ''null''),
        console := console s @ [(''Error fetching avatar:'', e)]\<rparr>)"
  by (simp add: fetchAndStoreAvatar_resume_def storeAvatar_failed localStorage_setItem_def
      toDOMString_def)

lemma fetchAndStoreAvatar_resume_loaded:
  "reader b = ReadLoaded url \<Longrightarrow>
   fetchAndStoreAvatar_resume (Inr b) reader s =
     (Fulfilled (),
      s\<lparr>localStorage := (localStorage s)(''userAvatar'' \<mapsto> url), avatar := Some url\<rparr>)"
  by (simp add: fetchAndStoreAvatar_resume_def storeAvatar_loaded localStorage_setItem_def
      toDOMString_def)

text \<open>
  Claim C8 says that when the download or the encoding fails, the failure is logged, is not
  surfaced to the caller of \<open>setUser\<close>, and the avatar state and the durable avatar key are
  left unset. For a failed download that is \<open>fetchAndStoreAvatar_resume_download_failed\<close>.
  For a failed encoding the durable key is written. On a fresh provider with empty storage,
  \<open>setUser\<close> with the user \<^verbatim>\<open>{id: "u1", avatarId: 42}\<close> starts the fetch; the download answers
  with a blob and the reader fails on it. Then the promise of the fetch is fulfilled, the
  failure is on the console and the avatar of the state is still absent; but the key
  \<^verbatim>\<open>userAvatar\<close>, absent before the fetch resumed, holds the text \<^verbatim>\<open>null\<close>, and a provider
  started on that storage has the avatar \<^verbatim>\<open>null\<close>, a string.
\<close>

theorem failed_read_persists_null_avatar:
  "fst (fetchAndStoreAvatar_resume (Inr [255, 216]) reader_fails
          (setUser stringify_ident (Some user_u1) fresh_session)) = Fulfilled () \<and>
   console (snd (fetchAndStoreAvatar_resume (Inr [255, 216]) reader_fails
          (setUser stringify_ident (Some user_u1) fresh_session)))
     = [(''Error fetching avatar:'', Error ''NotReadableError'')] \<and>
   avatar (snd (fetchAndStoreAvatar_resume (Inr [255, 216]) reader_fails
          (setUser stringify_ident (Some user_u1) fresh_session))) = None \<and>
   localStorage_getItem ''userAvatar''
     (setUser stringify_ident (Some user_u1) fresh_session) = None \<and>
   localStorage_getItem ''userAvatar''
     (snd (fetchAndStoreAvatar_resume (Inr [255, 216]) reader_fails
          (setUser stringify_ident (Some user_u1) fresh_session))) = Some ''null'' \<and>
   avatar (AuthProvider parse_none
      (cookies (snd (fetchAndStoreAvatar_resume (Inr [255, 216]) reader_fails
          (setUser stringify_ident (Some user_u1) fresh_session))))
      (localStorage (snd (fetchAndStoreAvatar_resume (Inr [255, 216]) reader_fails
          (setUser stringify_ident (Some user_u1) fresh_session))))) = Some ''null''"
  by (simp add: fetchAndStoreAvatar_resume_read_failed [where e = "Error ''NotReadableError''"]
      reader_fails_def setUser_def user_u1_def fresh_session_def AuthProvider_def
      truthy_number_def fetchAndStoreAvatar_def storage_defs Let_def)

text \<open>
  Claim C9 says that \<open>setUser\<close> with a user whose avatar id is present starts exactly one
  fetch. The setter tests \<^verbatim>\<open>if (userToStore.avatarId)\<close>, and the number 0 is falsy: for a
  user whose avatar id is 0 no file is requested.
\<close>

theorem setUser_avatarId_zero_counterexample:
  "downloads (setUser stringify_ident (Some user_zero) fresh_session) = []"
  by (simp add: setUser_def user_zero_def fresh_session_def AuthProvider_def truthy_number_def
      storage_defs Let_def)

text \<open>
  Claim C9, amended. For every user whose avatar id is present and not 0, and every
  session, \<open>setUser\<close> with that user requests exactly one file, the one with that id: the
  trace of requested files is the one before with that id added.
\<close>

theorem setUser_starts_one_avatar_fetch:
  assumes "avatarId u = Some n" and "n \<noteq> 0"
  shows "downloads (setUser f (Some u) s) = downloads s @ [n]"
  using assms
  by (simp add: setUser_def truthy_number_def fetchAndStoreAvatar_def storage_defs Let_def)

theorem setUser_starts_one_avatar_fetch_witness:
  "avatarId user_u1 = Some 42 \<and> (42::int) \<noteq> 0 \<and>
   downloads (setUser stringify_ident (Some user_u1) fresh_session) = [42]"
  using setUser_starts_one_avatar_fetch [of user_u1 42 stringify_ident fresh_session]
  by (simp add: user_u1_def fresh_session_def AuthProvider_def)

end
